theory Spec2Isabelle
  imports Main "HOL-Library.Word"
begin

section \<open>Python objects and exceptions\<close>

text \<open>
  The module \<^verbatim>\<open>expression.py\<close> is Python 2 and dynamically typed: every function accepts
  any object. The objects that reach its functions are host values (numbers, lists, numpy
  arrays, anything else) and the four node classes of the module. A float is represented
  by its 64 bits; an object of a class the module does not know (and that has no attribute
  \<^verbatim>\<open>ty\<close>) by a number naming it.

  \<^verbatim>\<open>Op(op, lhs, rhs)\<close>, \<^verbatim>\<open>Kernel(kind, name, args)\<close>, \<^verbatim>\<open>Terminal(ty, src)\<close> and
  \<^verbatim>\<open>Value(ty, ast)\<close> keep the order of the constructor arguments of the source. The
  kernel kinds are the integer constants of the source.
\<close>

datatype pyobj =
    PyNone
  | PyBool bool
  | PyInt int
  | PyLong int
  | PyFloat "64 word"
  | PyStr string
  | PyTuple "pyobj list"
  | PyList "pyobj list"
  | PyNdarray "pyobj list"
  | PyObject nat
  | Op string pyobj pyobj
  | Kernel int string "pyobj list"
  | Terminal string pyobj
  | Value string pyobj

datatype error = AttributeError | IndexError | KeyError | TypeError | NotImplementedError

definition MAP :: int where "MAP = 0"
definition ZIPWITH :: int where "ZIPWITH = 1"
definition SCAN :: int where "SCAN = 2"
definition REDUCE :: int where "REDUCE = 3"
definition OUTER :: int where "OUTER = 4"

section \<open>The module dictionary\<close>

text \<open>
  The values of the dictionary \<^verbatim>\<open>module\<close> are lambdas over \<^verbatim>\<open>self\<close> and \<^verbatim>\<open>other\<close> that
  call \<^verbatim>\<open>kernel\<close> or \<^verbatim>\<open>binop\<close>. They are kept as terms here, since \<^verbatim>\<open>kernel\<close> and
  \<^verbatim>\<open>binop\<close> are only looked up when a lambda is called; \<open>apply_lam\<close> below runs one.
\<close>

datatype param = Self | Other

datatype lam =
    Lam_kernel int string "param list"
  | Lam_binop string param param

definition module_array :: "(string \<times> lam) list" where
  "module_array =
     [(''__add__'', Lam_kernel ZIPWITH ''add'' [Self, Other]),
      (''__radd__'', Lam_kernel ZIPWITH ''add'' [Other, Self]),
      (''dot'', Lam_kernel REDUCE ''dot'' [Self, Other])]"

definition module_scalar :: "(string \<times> lam) list" where
  "module_scalar =
     [(''__add__'', Lam_binop ''+'' Self Other),
      (''__mul__'', Lam_binop ''*'' Self Other)]"

definition module :: "string \<rightharpoonup> (string \<times> lam) list" where
  "module = map_of [(''array'', module_array), (''scalar'', module_scalar)]"

definition docs :: "string \<rightharpoonup> string" where
  "docs = map_of [(''array'', ''A vector value''), (''scalar'', ''A scalar value'')]"

section \<open>Proxy classes and the two node constructors\<close>

text \<open>
  \<^verbatim>\<open>Node._proxy(cls, ty)\<close> copies \<^verbatim>\<open>module[ty]\<close> into a namespace, adds \<^verbatim>\<open>ty\<close> and
  \<^verbatim>\<open>docs[ty]\<close> and builds a class named after \<^verbatim>\<open>cls\<close> with the bases \<^verbatim>\<open>(cls, AST)\<close>.
  Indexing a dictionary with a missing key raises \<^verbatim>\<open>KeyError\<close>.
\<close>

record proxy_class =
  cls_name :: string
  bases :: "string list"
  ns :: "(string \<times> lam) list"
  ns_ty :: string
  ns_doc :: string

definition proxy :: "string \<Rightarrow> string \<Rightarrow> error + proxy_class" where
  "proxy cls ty =
     (case module ty of
        None \<Rightarrow> Inl KeyError
      | Some methods \<Rightarrow>
          (case docs ty of
             None \<Rightarrow> Inl KeyError
           | Some doc \<Rightarrow>
               Inr \<lparr>cls_name = cls, bases = [cls, ''AST''], ns = methods,
                    ns_ty = ty, ns_doc = doc\<rparr>))"

text \<open>
  \<^verbatim>\<open>Value.__new__\<close> and \<^verbatim>\<open>Terminal.__new__\<close> first build the proxy class, then allocate
  an instance of it and run \<^verbatim>\<open>__init__\<close>, which stores the two fields.
\<close>

definition Value_new :: "string \<Rightarrow> pyobj \<Rightarrow> error + pyobj" where
  "Value_new ty ast =
     (case proxy ''Value'' ty of
        Inl e \<Rightarrow> Inl e
      | Inr prototype \<Rightarrow> Inr (Value ty ast))"

definition Terminal_new :: "string \<Rightarrow> pyobj \<Rightarrow> error + pyobj" where
  "Terminal_new ty src =
     (case proxy ''Terminal'' ty of
        Inl e \<Rightarrow> Inl e
      | Inr prototype \<Rightarrow> Inr (Terminal ty src))"

section \<open>Attribute access and instance tests\<close>

text \<open>
  Only instances of \<^verbatim>\<open>Terminal\<close> and \<^verbatim>\<open>Value\<close> have the attribute \<^verbatim>\<open>ty\<close>, and only
  instances of \<^verbatim>\<open>Value\<close> have \<^verbatim>\<open>_ast\<close>; reading a missing attribute raises
  \<^verbatim>\<open>AttributeError\<close>.
\<close>

definition getattr_ty :: "pyobj \<Rightarrow> error + string" where
  "getattr_ty e =
     (case e of
        Terminal ty src \<Rightarrow> Inr ty
      | Value ty ast \<Rightarrow> Inr ty
      | _ \<Rightarrow> Inl AttributeError)"

definition getattr_ast :: "pyobj \<Rightarrow> error + pyobj" where
  "getattr_ast e =
     (case e of
        Value ty ast \<Rightarrow> Inr ast
      | _ \<Rightarrow> Inl AttributeError)"

definition isinstance_Value :: "pyobj \<Rightarrow> bool" where
  "isinstance_Value val = (case val of Value ty ast \<Rightarrow> True | _ \<Rightarrow> False)"

definition isinstance_Terminal :: "pyobj \<Rightarrow> bool" where
  "isinstance_Terminal val = (case val of Terminal ty src \<Rightarrow> True | _ \<Rightarrow> False)"

text \<open>\<^verbatim>\<open>isinstance(val, (int, long, float))\<close>; \<^verbatim>\<open>bool\<close> is a subclass of \<^verbatim>\<open>int\<close>.\<close>

definition isinstance_number :: "pyobj \<Rightarrow> bool" where
  "isinstance_number val =
     (case val of
        PyInt i \<Rightarrow> True
      | PyBool b \<Rightarrow> True
      | PyLong i \<Rightarrow> True
      | PyFloat f \<Rightarrow> True
      | _ \<Rightarrow> False)"

text \<open>\<^verbatim>\<open>isinstance(val, (list, np.ndarray))\<close>.\<close>

definition isinstance_list_ndarray :: "pyobj \<Rightarrow> bool" where
  "isinstance_list_ndarray val =
     (case val of
        PyList xs \<Rightarrow> True
      | PyNdarray xs \<Rightarrow> True
      | _ \<Rightarrow> False)"

text \<open>Every Python 2 value is an instance of \<^verbatim>\<open>object\<close>.\<close>

definition isinstance_object :: "pyobj \<Rightarrow> bool" where
  "isinstance_object val = True"

text \<open>\<^verbatim>\<open>args[i]\<close> on a list, for the indices the module uses (never negative).\<close>

definition getitem :: "pyobj list \<Rightarrow> nat \<Rightarrow> error + pyobj" where
  "getitem args i = (if i < length args then Inr (args ! i) else Inl IndexError)"

section \<open>The graph builder\<close>

definition unify :: "string \<Rightarrow> pyobj \<Rightarrow> pyobj \<Rightarrow> error + string" where
  "unify op e1 e2 = getattr_ty e1"

definition unit :: "pyobj \<Rightarrow> error + pyobj" where
  "unit val =
     (if isinstance_Value val then getattr_ast val
      else if isinstance_Terminal val then Inr val
      else if isinstance_number val then Terminal_new ''scalar'' val
      else if isinstance_list_ndarray val then Terminal_new ''array'' val
      else if isinstance_object val then Terminal_new ''array'' val
      else Inl NotImplementedError)"

text \<open>\<^verbatim>\<open>map(unit, args)\<close>: the first call that raises ends the map.\<close>

fun map_unit :: "pyobj list \<Rightarrow> error + pyobj list" where
  "map_unit [] = Inr []"
| "map_unit (x # xs) =
     (case unit x of
        Inl e \<Rightarrow> Inl e
      | Inr y \<Rightarrow> (case map_unit xs of Inl e \<Rightarrow> Inl e | Inr ys \<Rightarrow> Inr (y # ys)))"

text \<open>
  \<^verbatim>\<open>binop\<close> calls \<^verbatim>\<open>unify\<close> on its arguments as given, then lifts them; \<^verbatim>\<open>kernel\<close> lifts
  first and then calls \<^verbatim>\<open>unify\<close> on \<^verbatim>\<open>args[0]\<close> and \<^verbatim>\<open>args[1]\<close>, again as given.
\<close>

definition binop :: "string \<Rightarrow> pyobj \<Rightarrow> pyobj \<Rightarrow> error + pyobj" where
  "binop op a b =
     (case unify op a b of
        Inl e \<Rightarrow> Inl e
      | Inr retty \<Rightarrow>
          (case unit a of
             Inl e \<Rightarrow> Inl e
           | Inr a' \<Rightarrow>
               (case unit b of
                  Inl e \<Rightarrow> Inl e
                | Inr b' \<Rightarrow> Value_new retty (Op op a' b'))))"

definition kernel :: "int \<Rightarrow> string \<Rightarrow> pyobj list \<Rightarrow> error + pyobj" where
  "kernel kind name args =
     (case map_unit args of
        Inl e \<Rightarrow> Inl e
      | Inr operands \<Rightarrow>
          (case getitem args 0 of
             Inl e \<Rightarrow> Inl e
           | Inr a0 \<Rightarrow>
               (case getitem args 1 of
                  Inl e \<Rightarrow> Inl e
                | Inr a1 \<Rightarrow>
                    (case unify name a0 a1 of
                       Inl e \<Rightarrow> Inl e
                     | Inr retty \<Rightarrow> Value_new retty (Kernel kind name operands)))))"

text \<open>Calling one of the lambdas of \<^verbatim>\<open>module\<close> on \<^verbatim>\<open>self\<close> and \<^verbatim>\<open>other\<close>.\<close>

definition param_val :: "pyobj \<Rightarrow> pyobj \<Rightarrow> param \<Rightarrow> pyobj" where
  "param_val self other p = (case p of Self \<Rightarrow> self | Other \<Rightarrow> other)"

definition apply_lam :: "lam \<Rightarrow> pyobj \<Rightarrow> pyobj \<Rightarrow> error + pyobj" where
  "apply_lam f self other =
     (case f of
        Lam_kernel kind name ps \<Rightarrow> kernel kind name (map (param_val self other) ps)
      | Lam_binop op p q \<Rightarrow> binop op (param_val self other p) (param_val self other q))"

section \<open>The backend oracle and the evaluator\<close>

text \<open>
  \<^verbatim>\<open>random.choice(seq)\<close> returns the element of \<open>seq\<close> at a random index below its
  length. The random source is a sequence of draws \<open>rs\<close>; a draw is reduced to an index.
\<close>

definition backends :: "string list" where
  "backends = [''numpy'', ''blir'', ''numexpr'']"

definition oracle_fn :: "nat \<Rightarrow> pyobj \<Rightarrow> string" where
  "oracle_fn r expr = backends ! (r mod length backends)"

text \<open>
  The module \<^verbatim>\<open>compile\<close> that \<^verbatim>\<open>Node.eval\<close> imports is not part of the sources at hand:
  its three entry points are parameters, each taking the graph to a value or raising.
\<close>

record compile_module =
  eval_numpy :: "pyobj \<Rightarrow> error + pyobj"
  eval_blir :: "pyobj \<Rightarrow> error + pyobj"
  eval_numexpr :: "pyobj \<Rightarrow> error + pyobj"

text \<open>
  A call of an \<^verbatim>\<open>eval\<close> method either leaves the backend argument out (\<open>None\<close>) or
  passes one (\<open>Some b\<close>). \<^verbatim>\<open>Node.eval(self, backend=None)\<close> binds a missing argument to
  Python's \<^verbatim>\<open>None\<close>; \<^verbatim>\<open>Terminal.eval(self)\<close> has no such parameter, so a call that passes
  one raises \<^verbatim>\<open>TypeError\<close> before the body runs.
\<close>

definition bind_backend :: "pyobj option \<Rightarrow> pyobj" where
  "bind_backend barg = (case barg of None \<Rightarrow> PyNone | Some b \<Rightarrow> b)"

function Node_eval ::
    "compile_module \<Rightarrow> (nat \<Rightarrow> nat) \<Rightarrow> pyobj \<Rightarrow> pyobj option \<Rightarrow> error + pyobj" where
  "Node_eval c rs self barg =
     (case getattr_ast self of
        Inl e \<Rightarrow> Inl e
      | Inr expr \<Rightarrow>
          if bind_backend barg = PyStr ''numpy'' then eval_numpy c expr
          else if bind_backend barg = PyStr ''blir'' then eval_blir c expr
          else if bind_backend barg = PyStr ''numexpr'' then eval_numexpr c expr
          else Node_eval c (\<lambda>i. rs (Suc i)) self (Some (PyStr (oracle_fn (rs 0) expr))))"
  by pat_completeness auto
termination
proof (relation "measure (\<lambda>(c, rs, self, barg).
                   if bind_backend barg \<in> PyStr ` set backends then 0 else 1)")
  show "wf (measure (\<lambda>(c, rs, self, barg).
              if bind_backend barg \<in> PyStr ` set backends then 0 else 1))"
    by simp
next
  fix c :: compile_module and rs :: "nat \<Rightarrow> nat" and self :: pyobj and barg expr
  assume "bind_backend barg \<noteq> PyStr ''numpy''" "bind_backend barg \<noteq> PyStr ''blir''"
    "bind_backend barg \<noteq> PyStr ''numexpr''"
  then have unregistered: "bind_backend barg \<notin> PyStr ` set backends"
    by (auto simp: backends_def)
  have "rs 0 mod length backends < length backends"
    by (simp add: backends_def)
  then have "oracle_fn (rs 0) expr \<in> set backends"
    unfolding oracle_fn_def by (rule nth_mem)
  then have "bind_backend (Some (PyStr (oracle_fn (rs 0) expr))) \<in> PyStr ` set backends"
    by (simp add: bind_backend_def)
  with unregistered
  show "((c, \<lambda>i. rs (Suc i), self, Some (PyStr (oracle_fn (rs 0) expr))), c, rs, self, barg)
          \<in> measure (\<lambda>(c, rs, self, barg).
               if bind_backend barg \<in> PyStr ` set backends then 0 else 1)"
    by simp
qed

declare Node_eval.simps [simp del]

definition Terminal_eval :: "pyobj \<Rightarrow> pyobj option \<Rightarrow> error + pyobj" where
  "Terminal_eval self barg = (case barg of None \<Rightarrow> Inr self | Some b \<Rightarrow> Inl TypeError)"

text \<open>
  Two concrete parameters for running the evaluator: a \<^verbatim>\<open>compile\<close> module whose entry
  points return the graph tagged with their name, and a random source that always draws
  the same number.
\<close>

definition tagging_compile :: compile_module where
  "tagging_compile =
     \<lparr>eval_numpy = (\<lambda>expr. Inr (PyTuple [PyStr ''numpy'', expr])),
      eval_blir = (\<lambda>expr. Inr (PyTuple [PyStr ''blir'', expr])),
      eval_numexpr = (\<lambda>expr. Inr (PyTuple [PyStr ''numexpr'', expr]))\<rparr>"

definition const_draws :: "nat \<Rightarrow> nat \<Rightarrow> nat" where
  "const_draws k i = k"

section \<open>The default parallel map\<close>

text \<open>
  \<^verbatim>\<open>blaze/compute/pmap.py\<close> keeps the strategy in a module-level list of one element,
  \<^verbatim>\<open>default_map = [map]\<close>; the setter assigns to index 0 and the getter reads it. The
  list is the state: the setter returns the new list, the getter only reads. A strategy
  takes a function and a sequence to a sequence.
\<close>

definition default_map :: "(('a \<Rightarrow> 'b) \<Rightarrow> 'a list \<Rightarrow> 'b list) list" where
  "default_map = [map]"

definition set_default_pmap :: "'f \<Rightarrow> 'f list \<Rightarrow> error + 'f list" where
  "set_default_pmap func dm = (if 0 < length dm then Inr (dm[0 := func]) else Inl IndexError)"

definition get_default_pmap :: "'f list \<Rightarrow> error + 'f" where
  "get_default_pmap dm = (if 0 < length dm then Inr (dm ! 0) else Inl IndexError)"

text \<open>A sequence of calls of the setter, in order, from a given state.\<close>

fun set_default_pmap_all :: "'f list \<Rightarrow> 'f list \<Rightarrow> error + 'f list" where
  "set_default_pmap_all [] dm = Inr dm"
| "set_default_pmap_all (func # funcs) dm =
     (case set_default_pmap func dm of
        Inl e \<Rightarrow> Inl e
      | Inr dm' \<Rightarrow> set_default_pmap_all funcs dm')"

section \<open>Facts about the registry, the constructors and lifting\<close>

lemma dom_module: "dom module = {''array'', ''scalar''}"
  by (auto simp: module_def split: if_splits)

lemma dom_docs: "dom docs = dom module"
  by (auto simp: module_def docs_def split: if_splits)

lemma proxy_registered:
  assumes "ty \<in> dom module"
  shows "\<exists>p. proxy cls ty = Inr p"
proof -
  from assms obtain methods where "module ty = Some methods" by auto
  moreover from assms dom_docs obtain doc where "docs ty = Some doc" by auto
  ultimately show ?thesis by (simp add: proxy_def)
qed

lemma Value_new_registered: "ty \<in> dom module \<Longrightarrow> Value_new ty ast = Inr (Value ty ast)"
  using proxy_registered [of ty "''Value''"] by (auto simp: Value_new_def)

lemma Terminal_new_registered:
  "ty \<in> dom module \<Longrightarrow> Terminal_new ty src = Inr (Terminal ty src)"
  using proxy_registered [of ty "''Terminal''"] by (auto simp: Terminal_new_def)

lemma Terminal_new_scalar: "Terminal_new ''scalar'' src = Inr (Terminal ''scalar'' src)"
  by (rule Terminal_new_registered) (simp add: dom_module)

lemma Terminal_new_array: "Terminal_new ''array'' src = Inr (Terminal ''array'' src)"
  by (rule Terminal_new_registered) (simp add: dom_module)

lemma unit_Value: "unit (Value ty ast) = Inr ast"
  by (simp add: unit_def isinstance_Value_def getattr_ast_def)

lemma unit_Terminal: "unit (Terminal ty src) = Inr (Terminal ty src)"
  by (simp add: unit_def isinstance_Value_def isinstance_Terminal_def)

lemma unit_raw:
  assumes "\<not> isinstance_Value val" "\<not> isinstance_Terminal val"
  shows "unit val = Inr (Terminal (if isinstance_number val then ''scalar'' else ''array'') val)"
  using assms
  by (simp add: unit_def isinstance_object_def Terminal_new_scalar Terminal_new_array)

lemma unit_total: "\<exists>node. unit val = Inr node"
proof (cases "isinstance_Value val \<or> isinstance_Terminal val")
  case True
  then show ?thesis
    by (cases val)
      (simp_all add: isinstance_Value_def isinstance_Terminal_def unit_Value unit_Terminal)
next
  case False
  then show ?thesis by (simp add: unit_raw)
qed

lemma map_unit_total: "\<exists>operands. map_unit args = Inr operands"
proof (induction args)
  case Nil
  show ?case by simp
next
  case (Cons a args)
  from unit_total obtain node where "unit a = Inr node" by blast
  with Cons show ?case by auto
qed

section \<open>Facts about the evaluator\<close>

lemma oracle_fn_cases:
  "oracle_fn r expr = ''numpy'' \<or> oracle_fn r expr = ''blir'' \<or> oracle_fn r expr = ''numexpr''"
proof -
  have "r mod length backends < length backends"
    by (simp add: backends_def)
  then have "oracle_fn r expr \<in> set backends"
    unfolding oracle_fn_def by (rule nth_mem)
  then show ?thesis by (simp add: backends_def)
qed

lemma Node_eval_Value:
  "Node_eval c rs (Value ty g) barg =
     (if bind_backend barg = PyStr ''numpy'' then eval_numpy c g
      else if bind_backend barg = PyStr ''blir'' then eval_blir c g
      else if bind_backend barg = PyStr ''numexpr'' then eval_numexpr c g
      else Node_eval c (\<lambda>i. rs (Suc i)) (Value ty g) (Some (PyStr (oracle_fn (rs 0) g))))"
  by (subst Node_eval.simps) (simp add: getattr_ast_def)

lemma Node_eval_oracle:
  "Node_eval c rs' (Value ty g) (Some (PyStr (oracle_fn r g))) =
     (if oracle_fn r g = ''numpy'' then eval_numpy c g
      else if oracle_fn r g = ''blir'' then eval_blir c g
      else eval_numexpr c g)"
  using oracle_fn_cases [of r g]
  by (subst Node_eval_Value) (auto simp: bind_backend_def)

section \<open>Evaluation with an unregistered backend name\<close>

text \<open>
  C1, as the code has it. \<^verbatim>\<open>Node.eval\<close> compares the backend with the three registered
  names and sends everything else, Python's \<^verbatim>\<open>None\<close> and unregistered names alike, to
  its last branch, which asks the oracle and evaluates again with the name drawn. So for
  every Value and every backend name \<open>s\<close> that is not registered, evaluation with
  \<open>s\<close> raises nothing of its own: its outcome is the outcome of the entry point of the
  backend the oracle draws, applied to the graph of the Value, and it is the outcome of
  the same call with the backend left out.
\<close>

theorem Node_eval_unknown_backend:
  assumes "s \<notin> set backends"
  shows "Node_eval c rs (Value ty g) (Some (PyStr s)) =
           (if oracle_fn (rs 0) g = ''numpy'' then eval_numpy c g
            else if oracle_fn (rs 0) g = ''blir'' then eval_blir c g
            else eval_numexpr c g) \<and>
         Node_eval c rs (Value ty g) (Some (PyStr s)) = Node_eval c rs (Value ty g) None"
proof -
  from assms have "Node_eval c rs (Value ty g) (Some (PyStr s)) =
      Node_eval c (\<lambda>i. rs (Suc i)) (Value ty g) (Some (PyStr (oracle_fn (rs 0) g)))"
    by (subst Node_eval_Value) (simp add: bind_backend_def backends_def)
  moreover have "Node_eval c rs (Value ty g) None =
      Node_eval c (\<lambda>i. rs (Suc i)) (Value ty g) (Some (PyStr (oracle_fn (rs 0) g)))"
    by (subst Node_eval_Value) (simp add: bind_backend_def)
  ultimately show ?thesis
    by (simp add: Node_eval_oracle)
qed

text \<open>The theorem at the name \<^verbatim>\<open>unknown\<close>, with a source that draws index 1.\<close>

theorem Node_eval_unknown_backend_witness:
  "''unknown'' \<notin> set backends \<and>
   Node_eval tagging_compile (const_draws 1) (Value ''scalar'' (Op ''+'' (PyInt 2) (PyInt 7)))
     (Some (PyStr ''unknown'')) =
   Inr (PyTuple [PyStr ''blir'', Op ''+'' (PyInt 2) (PyInt 7)])"
proof -
  have unknown: "''unknown'' \<notin> set backends"
    by (simp add: backends_def)
  show ?thesis
    using unknown Node_eval_unknown_backend [OF unknown, of tagging_compile "const_draws 1"]
    by (simp add: oracle_fn_def backends_def const_draws_def tagging_compile_def)
qed

text \<open>
  The spec has this call fail with \<^verbatim>\<open>UnknownBackend\<close>. On the graph of the spec's
  end-to-end example, with a source that draws index 0, the call returns what the
  \<^verbatim>\<open>numpy\<close> entry point returns.
\<close>

theorem Node_eval_unknown_backend_counterexample:
  "Node_eval tagging_compile (const_draws 0)
     (Value ''array'' (Kernel ZIPWITH ''add''
        [Terminal ''array'' (PyList [PyInt 3, PyInt 1, PyInt 4]),
         Terminal ''array'' (PyList [PyInt 1, PyInt 5, PyInt 9])]))
     (Some (PyStr ''unknown'')) =
   Inr (PyTuple [PyStr ''numpy'', Kernel ZIPWITH ''add''
        [Terminal ''array'' (PyList [PyInt 3, PyInt 1, PyInt 4]),
         Terminal ''array'' (PyList [PyInt 1, PyInt 5, PyInt 9])]])"
proof -
  have pick: "oracle_fn (const_draws 0 0) g = ''numpy''" for g
    by (simp add: oracle_fn_def backends_def const_draws_def)
  show ?thesis
    apply (subst Node_eval_Value)
    apply (simp add: bind_backend_def pick)
    apply (subst Node_eval_Value)
    apply (simp add: bind_backend_def tagging_compile_def)
    done
qed

section \<open>Kernels with fewer than two operands\<close>

text \<open>
  C2. \<^verbatim>\<open>kernel\<close> reads \<^verbatim>\<open>args[0]\<close> and \<^verbatim>\<open>args[1]\<close> to call \<^verbatim>\<open>unify\<close>. On a list with
  fewer than two elements one of the two reads is out of range, so for every kind (the
  five enumerated ones among them), every name and every such list the call raises and
  returns no Value. The exception is Python's \<^verbatim>\<open>IndexError\<close>, which is what the spec
  calls \<^verbatim>\<open>InsufficientOperands\<close>.
\<close>

theorem kernel_insufficient_operands:
  "length args < 2 \<Longrightarrow> kernel kind name args = Inl IndexError"
proof -
  assume short: "length args < 2"
  from map_unit_total obtain operands where lifted: "map_unit args = Inr operands" by blast
  show ?thesis
  proof (cases args)
    case Nil
    with lifted show ?thesis by (simp add: kernel_def getitem_def)
  next
    case (Cons a rest)
    with short have "rest = []" by simp
    with Cons lifted show ?thesis by (simp add: kernel_def getitem_def)
  qed
qed

text \<open>The theorem at a list of one operand, for each of the five kinds.\<close>

theorem kernel_insufficient_operands_witness:
  "length [Terminal ''array'' (PyList [PyInt 3, PyInt 1, PyInt 4])] < 2 \<and>
   kernel MAP ''add'' [Terminal ''array'' (PyList [PyInt 3, PyInt 1, PyInt 4])]
     = Inl IndexError \<and>
   kernel ZIPWITH ''add'' [Terminal ''array'' (PyList [PyInt 3, PyInt 1, PyInt 4])]
     = Inl IndexError \<and>
   kernel SCAN ''add'' [Terminal ''array'' (PyList [PyInt 3, PyInt 1, PyInt 4])]
     = Inl IndexError \<and>
   kernel REDUCE ''add'' [Terminal ''array'' (PyList [PyInt 3, PyInt 1, PyInt 4])]
     = Inl IndexError \<and>
   kernel OUTER ''add'' [Terminal ''array'' (PyList [PyInt 3, PyInt 1, PyInt 4])]
     = Inl IndexError"
proof -
  have short: "length [Terminal ''array'' (PyList [PyInt 3, PyInt 1, PyInt 4])] < 2"
    by simp
  show ?thesis
    using short kernel_insufficient_operands [OF short] by simp
qed

section \<open>The category of a binary operation and of a kernel\<close>

text \<open>
  C3, as the code has it. \<^verbatim>\<open>binop\<close> and \<^verbatim>\<open>kernel\<close> call \<^verbatim>\<open>unify\<close> on the operands as
  they were passed, not on the lifted ones. When \<^verbatim>\<open>unify\<close> on the first two operands as
  passed gives a registered category \<open>c\<close> (the first operand is a Terminal or a Value of
  that category), \<^verbatim>\<open>binop\<close> returns a Value of category \<open>c\<close> over an Op whose operands
  are the two lifted inputs, and \<^verbatim>\<open>kernel\<close> returns a Value of category \<open>c\<close> over a
  Kernel whose operands are all the inputs, lifted in order.
\<close>

theorem binop_kernel_category:
  assumes "unify op a b = Inr c" and "c \<in> dom module"
  shows "(\<exists>a' b'. unit a = Inr a' \<and> unit b = Inr b' \<and>
            binop op a b = Inr (Value c (Op op a' b'))) \<and>
         (\<exists>operands. map_unit (a # b # rest) = Inr operands \<and>
            kernel kind op (a # b # rest) = Inr (Value c (Kernel kind op operands)))"
proof
  from unit_total obtain a' where a': "unit a = Inr a'" by blast
  from unit_total obtain b' where b': "unit b = Inr b'" by blast
  from assms a' b' have "binop op a b = Inr (Value c (Op op a' b'))"
    by (simp add: binop_def Value_new_registered)
  with a' b' show "\<exists>a' b'. unit a = Inr a' \<and> unit b = Inr b' \<and>
            binop op a b = Inr (Value c (Op op a' b'))" by blast
next
  from map_unit_total obtain operands where ops: "map_unit (a # b # rest) = Inr operands"
    by blast
  with assms have "kernel kind op (a # b # rest) = Inr (Value c (Kernel kind op operands))"
    by (simp add: kernel_def getitem_def Value_new_registered)
  with ops show "\<exists>operands. map_unit (a # b # rest) = Inr operands \<and>
            kernel kind op (a # b # rest) = Inr (Value c (Kernel kind op operands))" by blast
qed

text \<open>The theorem at a scalar Terminal and the plain number 7.\<close>

theorem binop_kernel_category_witness:
  "unify ''+'' (Terminal ''scalar'' (PyInt 2)) (PyInt 7) = Inr ''scalar'' \<and>
   ''scalar'' \<in> dom module \<and>
   binop ''+'' (Terminal ''scalar'' (PyInt 2)) (PyInt 7) =
     Inr (Value ''scalar''
       (Op ''+'' (Terminal ''scalar'' (PyInt 2)) (Terminal ''scalar'' (PyInt 7)))) \<and>
   kernel ZIPWITH ''+'' [Terminal ''scalar'' (PyInt 2), PyInt 7] =
     Inr (Value ''scalar''
       (Kernel ZIPWITH ''+'' [Terminal ''scalar'' (PyInt 2), Terminal ''scalar'' (PyInt 7)]))"
proof -
  have u: "unify ''+'' (Terminal ''scalar'' (PyInt 2)) (PyInt 7) = Inr ''scalar''"
    by (simp add: unify_def getattr_ty_def)
  have d: "''scalar'' \<in> dom module"
    by (simp add: dom_module)
  have l: "unit (Terminal ''scalar'' (PyInt 2)) = Inr (Terminal ''scalar'' (PyInt 2))"
    "unit (PyInt 7) = Inr (Terminal ''scalar'' (PyInt 7))"
    by (simp_all add: unit_Terminal unit_raw isinstance_Value_def isinstance_Terminal_def
        isinstance_number_def)
  show ?thesis
    using u d binop_kernel_category [OF u d, of "[]" ZIPWITH] by (simp add: l)
qed

text \<open>
  The spec has \<^verbatim>\<open>binop\<close> accept plain numbers and take the category from the lifted
  operands. The numbers 2 and 3 lift to scalar Terminals, on which \<^verbatim>\<open>unify\<close> gives
  \<^verbatim>\<open>scalar\<close>; but \<^verbatim>\<open>binop\<close> reads \<^verbatim>\<open>ty\<close> from the number 2 itself and raises
  \<^verbatim>\<open>AttributeError\<close>. \<^verbatim>\<open>kernel\<close> does the same on a plain list in first place, which is
  the call that \<^verbatim>\<open>__radd__\<close> of an array makes. In the other direction, a Value lifts
  to its Op, which has no category, so \<^verbatim>\<open>unify\<close> on the lifted operands would raise
  where \<^verbatim>\<open>binop\<close> returns a Value of the category of the wrapper.
\<close>

theorem binop_raw_counterexample:
  "unit (PyInt 2) = Inr (Terminal ''scalar'' (PyInt 2)) \<and>
   unit (PyInt 3) = Inr (Terminal ''scalar'' (PyInt 3)) \<and>
   unify ''+'' (Terminal ''scalar'' (PyInt 2)) (Terminal ''scalar'' (PyInt 3)) = Inr ''scalar'' \<and>
   binop ''+'' (PyInt 2) (PyInt 3) = Inl AttributeError \<and>
   kernel ZIPWITH ''add'' [PyList [PyInt 1], Terminal ''array'' (PyList [PyInt 2])]
     = Inl AttributeError \<and>
   apply_lam (Lam_kernel ZIPWITH ''add'' [Other, Self])
     (Terminal ''array'' (PyList [PyInt 2])) (PyList [PyInt 1]) = Inl AttributeError \<and>
   unit (Value ''scalar'' (Op ''+'' (Terminal ''scalar'' (PyInt 2)) (Terminal ''scalar'' (PyInt 7))))
     = Inr (Op ''+'' (Terminal ''scalar'' (PyInt 2)) (Terminal ''scalar'' (PyInt 7))) \<and>
   unify ''*'' (Op ''+'' (Terminal ''scalar'' (PyInt 2)) (Terminal ''scalar'' (PyInt 7)))
     (Terminal ''scalar'' (PyInt 3)) = Inl AttributeError \<and>
   binop ''*''
     (Value ''scalar'' (Op ''+'' (Terminal ''scalar'' (PyInt 2)) (Terminal ''scalar'' (PyInt 7))))
     (Terminal ''scalar'' (PyInt 3)) =
   Inr (Value ''scalar''
     (Op ''*'' (Op ''+'' (Terminal ''scalar'' (PyInt 2)) (Terminal ''scalar'' (PyInt 7)))
        (Terminal ''scalar'' (PyInt 3))))"
proof -
  have lifted: "unit (PyInt 2) = Inr (Terminal ''scalar'' (PyInt 2))"
    "unit (PyInt 3) = Inr (Terminal ''scalar'' (PyInt 3))"
    "unit (PyList [PyInt 1]) = Inr (Terminal ''array'' (PyList [PyInt 1]))"
    by (simp_all add: unit_raw isinstance_Value_def isinstance_Terminal_def
        isinstance_number_def)
  have k: "kernel ZIPWITH ''add'' [PyList [PyInt 1], Terminal ''array'' (PyList [PyInt 2])]
     = Inl AttributeError"
    by (simp add: kernel_def lifted unit_Terminal getitem_def unify_def getattr_ty_def)
  have v: "Value_new ''scalar'' g = Inr (Value ''scalar'' g)" for g
    by (simp add: Value_new_registered dom_module)
  show ?thesis
    by (simp add: lifted k v binop_def unify_def getattr_ty_def apply_lam_def param_val_def
        unit_Value unit_Terminal)
qed

section \<open>Lifting\<close>

text \<open>
  C4. \<^verbatim>\<open>unit\<close> (the spec's \<^verbatim>\<open>lift\<close>) returns a Terminal as it is, and for a Value it
  returns the graph node the Value holds, without wrapping it again.
\<close>

theorem unit_idempotent_unwrapping:
  "unit (Terminal ty src) = Inr (Terminal ty src) \<and> unit (Value ty g) = Inr g"
  by (simp add: unit_Terminal unit_Value)

text \<open>
  C5. On a host value that is neither a Terminal nor a Value, \<^verbatim>\<open>unit\<close> returns a
  Terminal wrapping the value: of category \<^verbatim>\<open>scalar\<close> for an \<^verbatim>\<open>int\<close>, a \<^verbatim>\<open>long\<close> or a
  \<^verbatim>\<open>float\<close> (and for a \<^verbatim>\<open>bool\<close>, which Python counts as an \<^verbatim>\<open>int\<close>), of category
  \<^verbatim>\<open>array\<close> for a list or a numpy array, and of category \<^verbatim>\<open>array\<close> for any other
  object. It raises on no input at all.
\<close>

theorem unit_raw_values:
  "unit (PyInt i) = Inr (Terminal ''scalar'' (PyInt i)) \<and>
   unit (PyLong i) = Inr (Terminal ''scalar'' (PyLong i)) \<and>
   unit (PyFloat f) = Inr (Terminal ''scalar'' (PyFloat f)) \<and>
   unit (PyBool t) = Inr (Terminal ''scalar'' (PyBool t)) \<and>
   unit (PyList xs) = Inr (Terminal ''array'' (PyList xs)) \<and>
   unit (PyNdarray xs) = Inr (Terminal ''array'' (PyNdarray xs)) \<and>
   unit (PyTuple xs) = Inr (Terminal ''array'' (PyTuple xs)) \<and>
   unit (PyStr s) = Inr (Terminal ''array'' (PyStr s)) \<and>
   unit PyNone = Inr (Terminal ''array'' PyNone) \<and>
   unit (PyObject n) = Inr (Terminal ''array'' (PyObject n)) \<and>
   unit (Op op l r) = Inr (Terminal ''array'' (Op op l r)) \<and>
   unit (Kernel kind name args) = Inr (Terminal ''array'' (Kernel kind name args)) \<and>
   (\<exists>node. unit val = Inr node)"
  using unit_total [of val]
  by (simp add: unit_raw isinstance_Value_def isinstance_Terminal_def isinstance_number_def)

section \<open>Unification\<close>

text \<open>
  C6. For a first operand that carries a category (a Terminal or a Value), \<^verbatim>\<open>unify\<close>
  returns that category, whatever the operator and the second operand are. The result
  is not symmetric: a scalar with an array gives \<^verbatim>\<open>scalar\<close>, an array with a scalar
  gives \<^verbatim>\<open>array\<close>.
\<close>

theorem unify_left_biased:
  "unify op (Terminal ty src) b = Inr ty \<and>
   unify op (Value ty g) b = Inr ty \<and>
   unify ''+'' (Terminal ''scalar'' (PyInt 1)) (Terminal ''array'' (PyList [])) \<noteq>
   unify ''+'' (Terminal ''array'' (PyList [])) (Terminal ''scalar'' (PyInt 1))"
  by (simp add: unify_def getattr_ty_def)

section \<open>Evaluating a Terminal\<close>

text \<open>
  C7, as the code has it. \<^verbatim>\<open>Terminal.eval\<close> returns the Terminal itself, not the source
  object it wraps, whether the source is a number or array-like. It takes no
  \<^verbatim>\<open>compile\<close> module and no random source: no backend is resolved or called.
\<close>

theorem Terminal_eval_identity:
  "Terminal_eval (Terminal ty src) None = Inr (Terminal ty src)"
  by (simp add: Terminal_eval_def)

text \<open>
  The spec has the call return the wrapped source. For the Terminal of the number 2 it
  returns the Terminal, which is not the number.
\<close>

theorem Terminal_eval_source_counterexample:
  "Terminal_eval (Terminal ''scalar'' (PyInt 2)) None = Inr (Terminal ''scalar'' (PyInt 2)) \<and>
   Terminal_eval (Terminal ''scalar'' (PyInt 2)) None \<noteq> Inr (PyInt 2)"
  by (simp add: Terminal_eval_def)

section \<open>Unregistered categories\<close>

text \<open>
  C8. For a category that is not a key of \<^verbatim>\<open>module\<close>, building the proxy class raises
  at \<^verbatim>\<open>module[ty]\<close>, for either base class, and so does the construction of a Terminal
  or a Value of that category. The exception is Python's \<^verbatim>\<open>KeyError\<close>, which is what
  the spec calls \<^verbatim>\<open>UnknownCategory\<close>.
\<close>

theorem unknown_category:
  assumes "module c = None"
  shows "proxy cls c = Inl KeyError \<and> Terminal_new c src = Inl KeyError \<and>
         Value_new c g = Inl KeyError"
  using assms by (simp add: proxy_def Terminal_new_def Value_new_def)

text \<open>The theorem at the category \<^verbatim>\<open>matrix\<close>.\<close>

theorem unknown_category_witness:
  "module ''matrix'' = None \<and> proxy ''Value'' ''matrix'' = Inl KeyError \<and>
   Terminal_new ''matrix'' (PyList [PyInt 1]) = Inl KeyError \<and>
   Value_new ''matrix'' (Op ''+'' (PyInt 1) (PyInt 2)) = Inl KeyError"
proof -
  have absent: "module ''matrix'' = None"
    by (simp add: module_def)
  show ?thesis
    using absent unknown_category [OF absent] by simp
qed

section \<open>The default parallel map round-trips\<close>

lemma set_default_pmap_all_last:
  "dm \<noteq> [] \<Longrightarrow> set_default_pmap_all (funcs @ [func]) dm = Inr (dm[0 := func])"
  by (induction funcs arbitrary: dm) (simp_all add: set_default_pmap_def)

text \<open>
  C9. In the initial state the getter returns the ordinary \<open>map\<close>. After any sequence
  of calls of the setter, the last of them with \<open>func\<close>, the getter returns \<open>func\<close>;
  the getter only reads the state, so every later call of it returns \<open>func\<close> as well.
\<close>

theorem default_pmap_round_trip:
  "get_default_pmap default_map = Inr map \<and>
   (case set_default_pmap_all (funcs @ [func]) default_map of
      Inl e \<Rightarrow> Inl e
    | Inr dm \<Rightarrow> get_default_pmap dm) = Inr func"
  by (simp add: set_default_pmap_all_last default_map_def get_default_pmap_def)

section \<open>A Terminal takes no backend\<close>

text \<open>
  C10. \<^verbatim>\<open>Terminal.eval(self)\<close> has no backend parameter: a call that passes one, a
  registered name or any other object, raises \<^verbatim>\<open>TypeError\<close>. \<^verbatim>\<open>Node.eval\<close>, which a
  Value inherits, accepts the argument: with \<^verbatim>\<open>numpy\<close> it calls that entry point.
\<close>

theorem Terminal_eval_rejects_backend:
  "Terminal_eval (Terminal ty src) (Some s) = Inl TypeError \<and>
   Node_eval c rs (Value ty g) (Some (PyStr ''numpy'')) = eval_numpy c g"
  by (subst Node_eval_Value) (simp add: Terminal_eval_def bind_backend_def)

end
